theory Spec2Isabelle
  imports Main "HOL-Library.Sublist"
begin

section \<open>Manifest deletion workflow (cmd/oras/root/manifest/delete.go)\<close>

subsection \<open>Data\<close>

text \<open>
  \<open>registry.Reference\<close>: the parsed coordinate of the target. The field
  \<open>Reference\<close> holds the tag or the digest and is empty for a bare repository.
\<close>

record Reference =
  Registry :: string
  Repository :: string
  Reference :: string

text \<open>
  The descriptor of a piece of content: media type, digest, size, annotations.
  A digest is a string of the form \<open>algorithm:encoded\<close>.
\<close>

record Descriptor =
  MediaType :: string
  Digest :: string
  Size :: int
  Annotations :: "string \<rightharpoonup> string"

text \<open>
  Error values. \<open>ErrNotFound\<close> is \<open>errdef.ErrNotFound\<close>; \<open>ErrorString\<close> is
  the value of \<open>errors.New\<close> and of \<open>fmt.Errorf\<close> without a wrapping verb;
  \<open>Wrapped c e\<close> is an error that adds the context \<open>c\<close> to the cause \<open>e\<close> and
  unwraps to \<open>e\<close> (\<open>fmt.Errorf\<close> with the wrapping verb, \<open>errors.Wrap\<close>);
  \<open>ErrInvalidReference\<close> is the value of \<open>oerrors.NewErrInvalidReference\<close>;
  \<open>ErrExactArgs n m\<close> is the failure of \<open>cobra.ExactArgs n\<close> on \<open>m\<close> arguments.
  The five path errors are the package-level values used by the path validator.
\<close>

datatype error =
    ErrNotFound
  | ErrorString string
  | Wrapped string error
  | ErrInvalidReference Reference
  | ErrExactArgs nat nat
  | ErrNoName
  | ErrDirtyPath
  | ErrPathNotSlashSeparated
  | ErrAbsolutePathDisallowed
  | ErrPathTraversalDisallowed

text \<open>\<open>errors.Is\<close>: the error itself or any error in its chain of causes.\<close>

fun errors_Is :: "error \<Rightarrow> error \<Rightarrow> bool" where
  "errors_Is (Wrapped c e) target = (Wrapped c e = target \<or> errors_Is e target)"
| "errors_Is e target = (e = target)"

text \<open>The authentication actions \<open>auth.ActionPull\<close>, \<open>auth.ActionPush\<close>, \<open>auth.ActionDelete\<close>.\<close>

datatype AuthAction = ActionPull | ActionPush | ActionDelete

text \<open>
  The part of the operation context this workflow changes: the scope hints registered
  so far, each a repository with its actions.
\<close>

type_synonym Context = "(Reference \<times> AuthAction list) list"

text \<open>
  The fields of \<open>deleteOptions\<close> that the workflow reads: \<open>Force\<close> (of
  \<open>option.Confirmation\<close>), \<open>OutputDescriptor\<close> (of \<open>option.Descriptor\<close>),
  \<open>ReferrersAPI\<close> (of \<open>option.Remote\<close>, a pointer to a boolean:
  \<open>None\<close> is the nil pointer) and \<open>targetRef\<close>.
\<close>

record deleteOptions =
  Force :: bool
  OutputDescriptor :: bool
  ReferrersAPI :: "bool option"
  targetRef :: string

text \<open>
  The external collaborators, as the results they give: the option parser
  (\<open>option.Parse\<close>, which may fill in option fields), the repository constructor
  (\<open>opts.NewRepository\<close>, which parses the target; the model keeps the parsed
  reference of the repository it returns), the two calls on the manifest store, the
  confirmation prompt, the marshaller, the output sink, and the quoting that the
  \<open>%q\<close> verb applies to the digest in the prompt.
\<close>

record Env =
  Parse :: "deleteOptions \<Rightarrow> error + deleteOptions"
  NewRepository :: "string \<Rightarrow> error + Reference"
  Resolve :: "Context \<Rightarrow> string \<Rightarrow> error + Descriptor"
  AskForConfirmation :: "string \<Rightarrow> error + bool"
  Delete :: "Context \<Rightarrow> Descriptor \<Rightarrow> error option"
  Marshal :: "Descriptor \<Rightarrow> error + string"
  Output :: "string \<Rightarrow> error option"
  Quote :: "string \<Rightarrow> string"

text \<open>
  What an invocation does to the outside, in order: the calls on the manifest store
  (the network calls), with the context they carry; the lines printed to standard
  output; the call of the confirmation, with its prompt; the descriptor written to the
  output sink.
\<close>

datatype Event =
    EvResolve Context string
  | EvDelete Context Descriptor
  | EvStdout string
  | EvPrompt string
  | EvOutput string

subsection \<open>Scope hints\<close>

text \<open>
  Modelled from the spec: \<open>registryutil.WithScopeHint\<close> is code of this repository
  that is not among the source files. The spec describes it as
  \<open>registerScopeHints(ctx, repositoryIdentity, actions: ordered set of AuthAction)\<close>,
  where a scope hint is an ordered set of actions, deduplicated. The model adds the
  actions one at a time to an ordered set (adding an action already present changes
  nothing) and registers the set for the repository.
\<close>

primrec ordered_set :: "'a list \<Rightarrow> 'a list \<Rightarrow> 'a list" where
  "ordered_set acc [] = acc"
| "ordered_set acc (x # xs) = ordered_set (if x \<in> set acc then acc else acc @ [x]) xs"

definition WithScopeHint :: "Reference \<Rightarrow> Context \<Rightarrow> AuthAction list \<Rightarrow> Context" where
  "WithScopeHint repo ctx actions = ctx @ [(repo, ordered_set [] actions)]"

text \<open>The slice \<open>hints\<close> that \<open>deleteManifest\<close> builds (lines 92 to 96).\<close>

definition hints :: "deleteOptions \<Rightarrow> AuthAction list" where
  "hints opts =
     (let hints = [ActionPull, ActionPush, ActionDelete] in
      if (case ReferrersAPI opts of None \<Rightarrow> True | Some b \<Rightarrow> \<not> b)
      then hints @ [ActionPush]
      else hints)"

subsection \<open>The workflow\<close>

text \<open>\<open>fmt.Println\<close> of two strings: the operands separated by a space, then a newline.\<close>

definition Println2 :: "string \<Rightarrow> string \<Rightarrow> string" where
  "Println2 a b = a @ '' '' @ b @ [CHR 0x0A]"

definition prompt_text :: "Env \<Rightarrow> Descriptor \<Rightarrow> string" where
  "prompt_text env desc =
     ''Are you sure you want to delete the manifest '' @ Quote env (Digest desc) @
     '' and all tags associated with it?''"

text \<open>
  \<open>deleteManifest\<close>: the events of the invocation and the error it returns
  (\<open>None\<close> is nil).
\<close>

definition deleteManifest :: "Env \<Rightarrow> Context \<Rightarrow> deleteOptions \<Rightarrow> Event list \<times> error option" where
  "deleteManifest env ctx0 opts =
     (case NewRepository env (targetRef opts) of
        Inl err \<Rightarrow> ([], Some err)
      | Inr repo \<Rightarrow>
          if Reference repo = [] then ([], Some (ErrInvalidReference repo))
          else
            let ctx = WithScopeHint repo ctx0 (hints opts);
                ev1 = [EvResolve ctx (targetRef opts)]
            in
            (case Resolve env ctx (targetRef opts) of
               Inl err \<Rightarrow>
                 if errors_Is err ErrNotFound then
                   if Force opts \<and> \<not> OutputDescriptor opts
                   then (ev1 @ [EvStdout (Println2 ''Missing'' (targetRef opts))], None)
                   else (ev1, Some (ErrorString
                          (targetRef opts @ '': the specified manifest does not exist'')))
                 else (ev1, Some err)
             | Inr desc \<Rightarrow>
                 let prompt = prompt_text env desc;
                     ev2 = ev1 @ [EvPrompt prompt]
                 in
                 (case AskForConfirmation env prompt of
                    Inl err \<Rightarrow> (ev2, Some err)
                  | Inr confirmed \<Rightarrow>
                      if \<not> confirmed then (ev2, None)
                      else
                        let ev3 = ev2 @ [EvDelete ctx desc] in
                        (case Delete env ctx desc of
                           Some err \<Rightarrow>
                             (ev3, Some (Wrapped (''failed to delete '' @ targetRef opts) err))
                         | None \<Rightarrow>
                             if OutputDescriptor opts then
                               (case Marshal env desc of
                                  Inl err \<Rightarrow> (ev3, Some err)
                                | Inr descJSON \<Rightarrow>
                                    (ev3 @ [EvOutput descJSON], Output env descJSON))
                             else
                               (ev3 @ [EvStdout (Println2 ''Deleted'' (targetRef opts))],
                                None)))))"

text \<open>
  The command built by \<open>deleteCmd\<close>. \<open>PreRunE\<close> is the validation hook;
  \<open>RunE\<close> stores the single argument as the target and runs the workflow. The
  command framework checks the arguments (\<open>cobra.ExactArgs 1\<close>), then runs
  \<open>PreRunE\<close>, and runs \<open>RunE\<close> only when \<open>PreRunE\<close> returned no error.
\<close>

definition PreRunE :: "Env \<Rightarrow> deleteOptions \<Rightarrow> error + deleteOptions" where
  "PreRunE env opts =
     (if OutputDescriptor opts \<and> \<not> Force opts
      then Inl (ErrorString
        ''must apply --force to confirm the deletion if the descriptor is outputted'')
      else Parse env opts)"

definition RunE :: "Env \<Rightarrow> Context \<Rightarrow> deleteOptions \<Rightarrow> string list \<Rightarrow> Event list \<times> error option" where
  "RunE env ctx opts args = deleteManifest env ctx (opts\<lparr>targetRef := hd args\<rparr>)"

definition deleteCmd :: "Env \<Rightarrow> Context \<Rightarrow> deleteOptions \<Rightarrow> string list \<Rightarrow> Event list \<times> error option" where
  "deleteCmd env ctx opts args =
     (if length args \<noteq> 1 then ([], Some (ErrExactArgs 1 (length args)))
      else
        (case PreRunE env opts of
           Inl err \<Rightarrow> ([], Some err)
         | Inr opts' \<Rightarrow> RunE env ctx opts' args))"

text \<open>The network calls among the events.\<close>

fun is_network :: "Event \<Rightarrow> bool" where
  "is_network (EvResolve ctx r) = True"
| "is_network (EvDelete ctx d) = True"
| "is_network e = False"

fun is_delete :: "Event \<Rightarrow> bool" where
  "is_delete (EvDelete ctx d) = True"
| "is_delete e = False"

section \<open>Push options (pkg/oras/push_opts.go)\<close>

subsection \<open>Names and paths\<close>

text \<open>
  Modelled from the spec: \<open>orascontent.ResolveName\<close> is code of this repository
  that is not among the source files. The spec says that the optional name of a
  descriptor is resolved from its annotations; the key is the title annotation of the
  image specification. The result \<open>None\<close> stands for the pair with \<open>ok = false\<close>.
\<close>

definition AnnotationTitle :: string where
  "AnnotationTitle = ''org.opencontainers.image.title''"

definition ResolveName :: "Descriptor \<Rightarrow> string option" where
  "ResolveName desc = Annotations desc AnnotationTitle"

text \<open>
  \<open>filepath.Clean\<close> and \<open>filepath.ToSlash\<close> of the standard library, on a platform
  whose separator is the slash (no volume names; \<open>ToSlash\<close> changes nothing there).
  \<open>clean_loop\<close> is the scanning loop of \<open>Clean\<close>: \<open>rest\<close> is the input from the
  read index on, \<open>out\<close> is the buffer written so far and \<open>dotdot\<close> the index in
  the buffer where backtracking over \<open>..\<close> must stop. \<open>scan_back buf dotdot w\<close> is
  the inner loop of the backtracking, which lowers the write index \<open>w\<close> while it is
  above \<open>dotdot\<close> and not at a slash.
\<close>

definition at_sep :: "string \<Rightarrow> bool" where
  "at_sep t = (t = [] \<or> hd t = CHR ''/'')"

fun scan_back :: "string \<Rightarrow> nat \<Rightarrow> nat \<Rightarrow> nat" where
  "scan_back buf dotdot 0 = 0"
| "scan_back buf dotdot (Suc w) =
     (if Suc w > dotdot \<and> buf ! Suc w \<noteq> CHR ''/'' then scan_back buf dotdot w else Suc w)"

function clean_loop :: "bool \<Rightarrow> string \<Rightarrow> string \<Rightarrow> nat \<Rightarrow> string" where
  "clean_loop rooted [] out dotdot = out"
| "clean_loop rooted (c # t) out dotdot =
     (if c = CHR ''/'' then clean_loop rooted t out dotdot
      else if c = CHR ''.'' \<and> at_sep t then clean_loop rooted t out dotdot
      else if c = CHR ''.'' \<and> t \<noteq> [] \<and> hd t = CHR ''.'' \<and> at_sep (tl t) then
        (if length out > dotdot then
           clean_loop rooted (tl t) (take (scan_back out dotdot (length out - 1)) out) dotdot
         else if \<not> rooted then
           (let out' = (if length out > 0 then out @ ''/'' else out) @ ''..''
            in clean_loop rooted (tl t) out' (length out'))
         else clean_loop rooted (tl t) out dotdot)
      else
        (let out' = (if rooted \<and> length out \<noteq> 1 \<or> \<not> rooted \<and> length out \<noteq> 0
                     then out @ ''/'' else out)
         in clean_loop rooted (dropWhile (\<lambda>x. x \<noteq> CHR ''/'') (c # t))
              (out' @ takeWhile (\<lambda>x. x \<noteq> CHR ''/'') (c # t)) dotdot))"
  by pat_completeness auto
termination
  by (relation "measure (\<lambda>(rooted, rest, out, dotdot). length rest)")
     (auto simp: le_imp_less_Suc length_dropWhile_le)

declare clean_loop.simps [simp del]

definition Clean :: "string \<Rightarrow> string" where
  "Clean path =
     (if path = [] then ''.''
      else
        let rooted = (hd path = CHR ''/'');
            out = (if rooted then clean_loop True (tl path) ''/'' 1
                   else clean_loop False path [] 0)
        in if out = [] then ''.'' else out)"

definition ToSlash :: "string \<Rightarrow> string" where
  "ToSlash path = path"

text \<open>Comparison of bytes, and the letter test of the drive check.\<close>

definition byte_le :: "char \<Rightarrow> char \<Rightarrow> bool" where
  "byte_le a b = ((of_char a :: nat) \<le> of_char b)"

definition is_letter :: "char \<Rightarrow> bool" where
  "is_letter c = (byte_le (CHR ''a'') c \<and> byte_le c (CHR ''z'') \<or>
                  byte_le (CHR ''A'') c \<and> byte_le c (CHR ''Z''))"

definition backslash :: char where
  "backslash = CHR 0x5C"

text \<open>\<open>ValidateNameAsPath\<close>; \<open>None\<close> is the nil error.\<close>

definition ValidateNameAsPath :: "Descriptor \<Rightarrow> error option" where
  "ValidateNameAsPath desc =
     (case ResolveName desc of
        None \<Rightarrow> Some ErrNoName
      | Some path \<Rightarrow>
          if path = [] then Some ErrNoName
          else if ToSlash (Clean path) \<noteq> path then Some (Wrapped path ErrDirtyPath)
          else if backslash \<in> set path then Some (Wrapped path ErrPathNotSlashSeparated)
          else if prefix ''/'' path then Some (Wrapped path ErrAbsolutePathDisallowed)
          else if length path > 2 \<and> path ! 1 = CHR '':'' \<and> path ! 2 = CHR ''/'' \<and>
                  is_letter (path ! 0)
            then Some (Wrapped path ErrAbsolutePathDisallowed)
          else if prefix ''../'' path \<or> path = ''..''
            then Some (Wrapped path ErrPathTraversalDisallowed)
          else None)"






subsection \<open>Handlers\<close>

text \<open>
  A call either returns or panics. The two panics of the status tracker: the digest has
  no separator (\<open>Encoded\<close> of the digest library panics), and a slice bound above the
  length of the string.
\<close>

datatype panic = NoDigestSeparator string | SliceBoundsOutOfRange nat nat

datatype 'a outcome = Panic panic | Return 'a

text \<open>
  \<open>Digest.Encoded\<close> of the digest library: the part of the digest after the first
  colon; it panics when the digest has no colon.
\<close>

definition Encoded :: "string \<Rightarrow> string outcome" where
  "Encoded d =
     (if CHR '':'' \<in> set d then Return (tl (dropWhile (\<lambda>c. c \<noteq> CHR '':'') d))
      else Panic (NoDigestSeparator d))"

text \<open>The slice expression \<open>s[:n]\<close>, which panics when \<open>n\<close> exceeds the length.\<close>

definition slice_to :: "string \<Rightarrow> nat \<Rightarrow> string outcome" where
  "slice_to s n = (if n > length s then Panic (SliceBoundsOutOfRange n (length s))
                   else Return (take n s))"

text \<open>
  A sink (\<open>io.Writer\<close>) is identified by a number. A handler, given a descriptor,
  writes to sinks and returns the dependent descriptors and an error, or panics. The
  context argument is left out: no handler of this file reads it.
\<close>

datatype Writer = Writer nat

type_synonym Handler =
  "Descriptor \<Rightarrow> ((Writer \<times> string) list \<times> Descriptor list \<times> error option) outcome"

text \<open>\<open>fmt.Fprintln\<close> of three strings.\<close>

definition Println3 :: "string \<Rightarrow> string \<Rightarrow> string \<Rightarrow> string" where
  "Println3 a b c = a @ '' '' @ b @ '' '' @ c @ [CHR 0x0A]"

text \<open>
  \<open>pushStatusTrack\<close>. The lock only orders the writes of concurrent calls; one call
  is modelled. The arguments of \<open>Fprintln\<close> are evaluated before it writes, so a
  panic leaves the sink untouched.
\<close>

definition pushStatusTrack :: "Writer \<Rightarrow> Handler" where
  "pushStatusTrack writer desc =
     (case ResolveName desc of
        Some name \<Rightarrow>
          (case Encoded (Digest desc) of
             Panic p \<Rightarrow> Panic p
           | Return enc \<Rightarrow>
               (case slice_to enc 12 of
                  Panic p \<Rightarrow> Panic p
                | Return short \<Rightarrow>
                    Return ([(writer, Println3 ''Uploading'' short name)], [], None)))
      | None \<Rightarrow> Return ([], [], None))"

subsection \<open>The configuration and its mutators\<close>

text \<open>The descriptor and the manifest of the artifact specification.\<close>

record ArtifactDescriptor =
  MediaType_v2 :: string
  Digest_v2 :: string
  Size_v2 :: int
  Annotations_v2 :: "string \<rightharpoonup> string"

record ArtifactManifest =
  ArtifactType :: string
  Subject :: ArtifactDescriptor

text \<open>
  Modelled from the spec: \<open>convertV1DescriptorToV2\<close> is code of this repository that
  is not among the source files. The spec calls it a pure structural projection:
  media type, digest, size, and a copy of the annotations.
\<close>

definition convertV1DescriptorToV2 :: "Descriptor \<Rightarrow> ArtifactDescriptor" where
  "convertV1DescriptorToV2 desc =
     \<lparr>MediaType_v2 = MediaType desc, Digest_v2 = Digest desc, Size_v2 = Size desc,
      Annotations_v2 = Annotations desc\<rparr>"

text \<open>
  \<open>pushOpts\<close>. A pointer field is an option (\<open>None\<close> is nil), as are the sink and
  the validation function, which may be nil.
\<close>

record pushOpts =
  config :: "Descriptor option"
  configMediaType :: string
  configAnnotations :: "string \<rightharpoonup> string"
  manifest :: "Descriptor option"
  manifestAnnotations :: "string \<rightharpoonup> string"
  manifestWriter :: "Writer option"
  validateName :: "(Descriptor \<Rightarrow> error option) option"
  baseHandlers :: "Handler list"
  artifact :: "ArtifactManifest option"

definition pushOptsDefaults :: pushOpts where
  "pushOptsDefaults =
     \<lparr>config = None, configMediaType = [], configAnnotations = Map.empty,
      manifest = None, manifestAnnotations = Map.empty, manifestWriter = None,
      validateName = Some ValidateNameAsPath, baseHandlers = [], artifact = None\<rparr>"

text \<open>
  \<open>PushOpt\<close>: a mutator of the configuration. It returns the configuration as it
  left it and its error (\<open>None\<close> is nil).
\<close>

type_synonym PushOpt = "pushOpts \<Rightarrow> pushOpts \<times> error option"

definition WithConfig :: "Descriptor \<Rightarrow> PushOpt" where
  "WithConfig cfg po = (po\<lparr>config := Some cfg\<rparr>, None)"

definition WithConfigMediaType :: "string \<Rightarrow> PushOpt" where
  "WithConfigMediaType mediaType po = (po\<lparr>configMediaType := mediaType\<rparr>, None)"

definition WithConfigAnnotations :: "(string \<rightharpoonup> string) \<Rightarrow> PushOpt" where
  "WithConfigAnnotations annotations po = (po\<lparr>configAnnotations := annotations\<rparr>, None)"

definition WithManifest :: "Descriptor \<Rightarrow> PushOpt" where
  "WithManifest mf po = (po\<lparr>manifest := Some mf\<rparr>, None)"

definition WithManifestAnnotations :: "(string \<rightharpoonup> string) \<Rightarrow> PushOpt" where
  "WithManifestAnnotations annotations po = (po\<lparr>manifestAnnotations := annotations\<rparr>, None)"

definition WithManifestWriter :: "Writer option \<Rightarrow> PushOpt" where
  "WithManifestWriter writer po = (po\<lparr>manifestWriter := writer\<rparr>, None)"

definition WithNameValidation :: "(Descriptor \<Rightarrow> error option) option \<Rightarrow> PushOpt" where
  "WithNameValidation validate po = (po\<lparr>validateName := validate\<rparr>, None)"

definition WithPushBaseHandler :: "Handler list \<Rightarrow> PushOpt" where
  "WithPushBaseHandler handlers po =
     (po\<lparr>baseHandlers := baseHandlers po @ handlers\<rparr>, None)"

definition WithPushStatusTrack :: "Writer \<Rightarrow> PushOpt" where
  "WithPushStatusTrack writer = WithPushBaseHandler [pushStatusTrack writer]"

definition AsArtifact :: "string \<Rightarrow> Descriptor \<Rightarrow> PushOpt" where
  "AsArtifact artifactType mf po =
     (po\<lparr>artifact := Some \<lparr>ArtifactType = artifactType,
                             Subject = convertV1DescriptorToV2 mf\<rparr>\<rparr>, None)"

text \<open>The option surface: one constructor for each mutator of the module.\<close>

datatype PushOption =
    OptConfig Descriptor
  | OptConfigMediaType string
  | OptConfigAnnotations "string \<rightharpoonup> string"
  | OptManifest Descriptor
  | OptManifestAnnotations "string \<rightharpoonup> string"
  | OptManifestWriter "Writer option"
  | OptNameValidation "(Descriptor \<Rightarrow> error option) option"
  | OptPushBaseHandler "Handler list"
  | OptPushStatusTrack Writer
  | OptAsArtifact string Descriptor

fun mutator :: "PushOption \<Rightarrow> PushOpt" where
  "mutator (OptConfig cfg) = WithConfig cfg"
| "mutator (OptConfigMediaType mediaType) = WithConfigMediaType mediaType"
| "mutator (OptConfigAnnotations annotations) = WithConfigAnnotations annotations"
| "mutator (OptManifest mf) = WithManifest mf"
| "mutator (OptManifestAnnotations annotations) = WithManifestAnnotations annotations"
| "mutator (OptManifestWriter writer) = WithManifestWriter writer"
| "mutator (OptNameValidation validate) = WithNameValidation validate"
| "mutator (OptPushBaseHandler handlers) = WithPushBaseHandler handlers"
| "mutator (OptPushStatusTrack writer) = WithPushStatusTrack writer"
| "mutator (OptAsArtifact artifactType mf) = AsArtifact artifactType mf"

text \<open>
  Modelled from the spec: the builder that applies the mutators is code of this
  repository that is not among the source files. The spec says that the mutators are
  applied strictly in the order supplied and that the builder aborts on the first
  mutator error.
\<close>

fun applyOpts :: "PushOpt list \<Rightarrow> pushOpts \<Rightarrow> error + pushOpts" where
  "applyOpts [] po = Inr po"
| "applyOpts (f # fs) po =
     (case f po of
        (po', Some err) \<Rightarrow> Inl err
      | (po', None) \<Rightarrow> applyOpts fs po')"

section \<open>Sample inputs\<close>

definition sample_ref :: Reference where
  "sample_ref = \<lparr>Registry = ''localhost:5000'', Repository = ''hello'', Reference = ''v1''\<rparr>"

definition bare_ref :: Reference where
  "bare_ref = \<lparr>Registry = ''localhost:5000'', Repository = ''hello'', Reference = []\<rparr>"

definition named :: "string \<Rightarrow> string \<Rightarrow> Descriptor" where
  "named digest name =
     \<lparr>MediaType = ''application/octet-stream'', Digest = digest, Size = 3,
      Annotations = [AnnotationTitle \<mapsto> name]\<rparr>"


definition sample_desc :: Descriptor where
  "sample_desc = named ''sha256:99e4703fbf30916f'' ''hello.txt''"

text \<open>
  An environment in which the target parses to \<open>repo\<close>, the store answers the resolve
  call with \<open>res\<close>, the user answers the prompt with \<open>answer\<close>, and everything else
  succeeds.
\<close>

definition sample_env :: "Reference \<Rightarrow> error + Descriptor \<Rightarrow> error + bool \<Rightarrow> Env" where
  "sample_env repo res answer =
     \<lparr>Parse = Inr, NewRepository = (\<lambda>target. Inr repo), Resolve = (\<lambda>ctx target. res),
      AskForConfirmation = (\<lambda>prompt. answer), Delete = (\<lambda>ctx desc. None),
      Marshal = (\<lambda>desc. Inr (''{digest: '' @ Digest desc @ ''}'')),
      Output = (\<lambda>bytes. None), Quote = (\<lambda>s. s)\<rparr>"

definition sample_opts :: "bool \<Rightarrow> bool \<Rightarrow> bool option \<Rightarrow> deleteOptions" where
  "sample_opts force descriptor referrers =
     \<lparr>Force = force, OutputDescriptor = descriptor, ReferrersAPI = referrers,
      targetRef = ''localhost:5000/hello:v1''\<rparr>"

section \<open>Properties of the deletion workflow\<close>

lemma hints_cases:
  "hints opts = (if ReferrersAPI opts = Some True
                 then [ActionPull, ActionPush, ActionDelete]
                 else [ActionPull, ActionPush, ActionDelete, ActionPush])"
  by (cases "ReferrersAPI opts") (auto simp: hints_def)

lemma sublist_does_not_exist:
  "sublist ''does not exist'' (target @ '': the specified manifest does not exist'')"
  unfolding sublist_def
  by (rule exI [of _ "target @ '': the specified manifest ''"], rule exI [of _ "[]"]) simp

text \<open>
  Claim C1, as the code has it. The validation hook rejects descriptor output that comes
  without force: the command then returns that error and nothing has happened (no
  resolve call, no other event), whatever the arguments and the collaborators. Force
  passes the guard, also together with descriptor output: the hook then returns what the
  option parser returns.
\<close>

theorem descriptor_without_force_rejected_up_front:
  "(OutputDescriptor opts \<and> \<not> Force opts \<longrightarrow>
      PreRunE env opts = Inl (ErrorString
        ''must apply --force to confirm the deletion if the descriptor is outputted'')
      \<and> deleteCmd env ctx opts [target] = ([], Some (ErrorString
        ''must apply --force to confirm the deletion if the descriptor is outputted''))
      \<and> fst (deleteCmd env ctx opts args) = [])
   \<and> (Force opts \<longrightarrow> PreRunE env opts = Parse env opts)"
  by (simp add: PreRunE_def deleteCmd_def)

theorem descriptor_without_force_rejected_up_front_witness:
  "OutputDescriptor (sample_opts False True None) \<and> \<not> Force (sample_opts False True None)
   \<and> deleteCmd (sample_env sample_ref (Inr sample_desc) (Inr True)) [] (sample_opts False True None)
        [''localhost:5000/hello:v1'']
      = ([], Some (ErrorString
          ''must apply --force to confirm the deletion if the descriptor is outputted''))
   \<and> Force (sample_opts True True None)
   \<and> PreRunE (sample_env sample_ref (Inr sample_desc) (Inr True)) (sample_opts True True None)
      = Inr (sample_opts True True None)"
  using descriptor_without_force_rejected_up_front
          [of "sample_opts False True None" "sample_env sample_ref (Inr sample_desc) (Inr True)"
              "[]" "''localhost:5000/hello:v1''" "[]"]
        descriptor_without_force_rejected_up_front
          [of "sample_opts True True None" "sample_env sample_ref (Inr sample_desc) (Inr True)"
              "[]" "''localhost:5000/hello:v1''" "[]"]
  by (simp add: sample_env_def sample_opts_def)

text \<open>
  Claim C1 as stated fails: with force and descriptor output together, and
  collaborators that succeed, the hook returns no error and the command goes on to
  resolve the reference, delete the manifest and write the descriptor.
\<close>

theorem force_with_descriptor_not_rejected:
  "PreRunE (sample_env sample_ref (Inr sample_desc) (Inr True)) (sample_opts True True None)
     = Inr (sample_opts True True None)
   \<and> deleteCmd (sample_env sample_ref (Inr sample_desc) (Inr True)) [] (sample_opts True True None)
        [''localhost:5000/hello:v1'']
     = ([EvResolve [(sample_ref, [ActionPull, ActionPush, ActionDelete])] ''localhost:5000/hello:v1'',
         EvPrompt (''Are you sure you want to delete the manifest sha256:99e4703fbf30916f'' @
                   '' and all tags associated with it?''),
         EvDelete [(sample_ref, [ActionPull, ActionPush, ActionDelete])] sample_desc,
         EvOutput ''{digest: sha256:99e4703fbf30916f}''],
        None)"
  by (simp add: PreRunE_def deleteCmd_def RunE_def deleteManifest_def WithScopeHint_def hints_def
      prompt_text_def sample_env_def sample_opts_def sample_ref_def sample_desc_def named_def
      Let_def)

text \<open>
  Claim C2. When the referrers capability is unknown (nil) or known unsupported
  (false), and the invocation gets as far as the scope hints (the target parses and its
  reference is not empty), the code passes pull, push, delete and push again; the set
  registered is pull, push, delete, with push in it once; and the first event of the
  invocation is the resolve call, which carries the context with that set.
\<close>

theorem scope_hints_registered_before_resolve:
  assumes "ReferrersAPI opts = None \<or> ReferrersAPI opts = Some False"
    and "NewRepository env (targetRef opts) = Inr repo"
    and "Reference repo \<noteq> []"
  shows "hints opts = [ActionPull, ActionPush, ActionDelete, ActionPush]
    \<and> (\<exists>hs rest.
          WithScopeHint repo ctx (hints opts) = ctx @ [(repo, hs)]
        \<and> set hs = {ActionPull, ActionPush, ActionDelete}
        \<and> count_list hs ActionPush = 1
        \<and> distinct hs
        \<and> fst (deleteManifest env ctx opts) =
            EvResolve (ctx @ [(repo, hs)]) (targetRef opts) # rest)"
proof -
  have h: "hints opts = [ActionPull, ActionPush, ActionDelete, ActionPush]"
    using assms(1) by (auto simp: hints_cases)
  have w: "WithScopeHint repo ctx (hints opts) =
             ctx @ [(repo, [ActionPull, ActionPush, ActionDelete])]"
    by (simp add: h WithScopeHint_def)
  have "\<exists>rest. fst (deleteManifest env ctx opts) =
      EvResolve (ctx @ [(repo, [ActionPull, ActionPush, ActionDelete])]) (targetRef opts) # rest"
    using assms(2,3) w
    by (auto simp: deleteManifest_def Let_def split: sum.splits option.splits)
  with h w show ?thesis by auto
qed

theorem scope_hints_registered_before_resolve_witness:
  "ReferrersAPI (sample_opts False False (Some False)) = Some False
   \<and> hints (sample_opts False False (Some False)) =
       [ActionPull, ActionPush, ActionDelete, ActionPush]
   \<and> WithScopeHint sample_ref [] (hints (sample_opts False False (Some False))) =
       [(sample_ref, [ActionPull, ActionPush, ActionDelete])]
   \<and> hd (fst (deleteManifest (sample_env sample_ref (Inr sample_desc) (Inr True)) []
              (sample_opts False False (Some False)))) =
       EvResolve [(sample_ref, [ActionPull, ActionPush, ActionDelete])] ''localhost:5000/hello:v1''"
proof -
  have a: "ReferrersAPI (sample_opts False False (Some False)) = None
           \<or> ReferrersAPI (sample_opts False False (Some False)) = Some False"
    by (simp add: sample_opts_def)
  have b: "NewRepository (sample_env sample_ref (Inr sample_desc) (Inr True))
             (targetRef (sample_opts False False (Some False))) = Inr sample_ref"
    by (simp add: sample_env_def)
  have c: "Reference sample_ref \<noteq> []"
    by (simp add: sample_ref_def)
  have d: "ReferrersAPI (sample_opts False False (Some False)) = Some False"
    by (simp add: sample_opts_def)
  from scope_hints_registered_before_resolve [OF a b c, of "[]"] obtain hs rest
    where h: "hints (sample_opts False False (Some False)) =
                [ActionPull, ActionPush, ActionDelete, ActionPush]"
      and w: "WithScopeHint sample_ref [] (hints (sample_opts False False (Some False))) =
                [] @ [(sample_ref, hs)]"
      and f: "fst (deleteManifest (sample_env sample_ref (Inr sample_desc) (Inr True)) []
                (sample_opts False False (Some False))) =
              EvResolve ([] @ [(sample_ref, hs)])
                (targetRef (sample_opts False False (Some False))) # rest"
    by blast
  have w': "WithScopeHint sample_ref [] (hints (sample_opts False False (Some False))) =
              [(sample_ref, [ActionPull, ActionPush, ActionDelete])]"
    by (simp add: h WithScopeHint_def)
  with w have hs: "hs = [ActionPull, ActionPush, ActionDelete]"
    by simp
  have t: "targetRef (sample_opts False False (Some False)) = ''localhost:5000/hello:v1''"
    by (simp add: sample_opts_def)
  show ?thesis
    using d h w' f hs t by simp
qed

text \<open>
  Claim C4. When the resolve call fails with an error that is a not-found error, force
  is set and descriptor output is not requested, the workflow prints the line
  \<open>Missing\<close> followed by the target, returns no error, and the only call on the
  manifest store is the resolve call: the delete call is never made.
\<close>

theorem not_found_under_force_is_no_op:
  assumes "NewRepository env (targetRef opts) = Inr repo"
    and "Reference repo \<noteq> []"
    and "Resolve env (WithScopeHint repo ctx (hints opts)) (targetRef opts) = Inl err"
    and "errors_Is err ErrNotFound"
    and "Force opts"
    and "\<not> OutputDescriptor opts"
  shows "deleteManifest env ctx opts =
           ([EvResolve (WithScopeHint repo ctx (hints opts)) (targetRef opts),
             EvStdout (''Missing '' @ targetRef opts @ [CHR 0x0A])], None)
         \<and> list_all (\<lambda>e. \<not> is_delete e) (fst (deleteManifest env ctx opts))"
  using assms by (simp add: deleteManifest_def Println2_def Let_def)

theorem not_found_under_force_is_no_op_witness:
  "errors_Is (Wrapped ''localhost:5000/hello:v1'' ErrNotFound) ErrNotFound
   \<and> Force (sample_opts True False None) \<and> \<not> OutputDescriptor (sample_opts True False None)
   \<and> deleteManifest
       (sample_env sample_ref (Inl (Wrapped ''localhost:5000/hello:v1'' ErrNotFound)) (Inr True))
       [] (sample_opts True False None) =
     ([EvResolve [(sample_ref, [ActionPull, ActionPush, ActionDelete])] ''localhost:5000/hello:v1'',
       EvStdout (''Missing localhost:5000/hello:v1'' @ [CHR 0x0A])], None)"
  using not_found_under_force_is_no_op
          [of "sample_env sample_ref (Inl (Wrapped ''localhost:5000/hello:v1'' ErrNotFound)) (Inr True)"
              "sample_opts True False None" sample_ref "[]"
              "Wrapped ''localhost:5000/hello:v1'' ErrNotFound"]
  by (simp add: sample_env_def sample_opts_def sample_ref_def WithScopeHint_def hints_def)

text \<open>
  Claim C5. When the resolve call fails: if the error is a not-found error and force is
  not set, the workflow returns an error whose message is the target followed by
  \<open>: the specified manifest does not exist\<close>, so the message contains the target and
  the words \<open>does not exist\<close>; if the error is not a not-found error, the workflow
  returns that very error. In both cases the resolve call is the only event: the delete
  call is never made.
\<close>

theorem not_found_without_force_is_error:
  assumes "NewRepository env (targetRef opts) = Inr repo"
    and "Reference repo \<noteq> []"
    and "Resolve env (WithScopeHint repo ctx (hints opts)) (targetRef opts) = Inl err"
  shows "(errors_Is err ErrNotFound \<and> \<not> Force opts \<longrightarrow>
           snd (deleteManifest env ctx opts) =
             Some (ErrorString (targetRef opts @ '': the specified manifest does not exist''))
           \<and> sublist (targetRef opts)
               (targetRef opts @ '': the specified manifest does not exist'')
           \<and> sublist ''does not exist''
               (targetRef opts @ '': the specified manifest does not exist''))
       \<and> (\<not> errors_Is err ErrNotFound \<longrightarrow> snd (deleteManifest env ctx opts) = Some err)
       \<and> (\<not> errors_Is err ErrNotFound \<or> \<not> Force opts \<longrightarrow>
           fst (deleteManifest env ctx opts) =
             [EvResolve (WithScopeHint repo ctx (hints opts)) (targetRef opts)]
           \<and> list_all (\<lambda>e. \<not> is_delete e) (fst (deleteManifest env ctx opts)))"
  using assms sublist_does_not_exist [of "targetRef opts"]
  by (auto simp: deleteManifest_def Let_def)

theorem not_found_without_force_is_error_witness:
  "errors_Is ErrNotFound ErrNotFound \<and> \<not> Force (sample_opts False False None)
   \<and> snd (deleteManifest (sample_env sample_ref (Inl ErrNotFound) (Inr True)) []
            (sample_opts False False None))
     = Some (ErrorString ''localhost:5000/hello:v1: the specified manifest does not exist'')
   \<and> fst (deleteManifest (sample_env sample_ref (Inl ErrNotFound) (Inr True)) []
            (sample_opts False False None))
     = [EvResolve [(sample_ref, [ActionPull, ActionPush, ActionDelete])] ''localhost:5000/hello:v1'']
   \<and> \<not> errors_Is (ErrorString ''connection refused'') ErrNotFound
   \<and> snd (deleteManifest (sample_env sample_ref (Inl (ErrorString ''connection refused'')) (Inr True))
        [] (sample_opts True False None))
     = Some (ErrorString ''connection refused'')"
  using not_found_without_force_is_error
          [of "sample_env sample_ref (Inl ErrNotFound) (Inr True)" "sample_opts False False None"
              sample_ref "[]" ErrNotFound]
        not_found_without_force_is_error
          [of "sample_env sample_ref (Inl (ErrorString ''connection refused'')) (Inr True)"
              "sample_opts True False None" sample_ref "[]" "ErrorString ''connection refused''"]
  by (simp add: sample_env_def sample_opts_def sample_ref_def WithScopeHint_def hints_def)

text \<open>
  Claim C6. When the resolve call succeeds and the confirmation returns false with no
  error (the user declined), the workflow returns no error and its events are the
  resolve call and the prompt: nothing is deleted, the delete call is never made.
\<close>

theorem declined_confirmation_deletes_nothing:
  assumes "NewRepository env (targetRef opts) = Inr repo"
    and "Reference repo \<noteq> []"
    and "Resolve env (WithScopeHint repo ctx (hints opts)) (targetRef opts) = Inr desc"
    and "AskForConfirmation env (prompt_text env desc) = Inr False"
  shows "deleteManifest env ctx opts =
           ([EvResolve (WithScopeHint repo ctx (hints opts)) (targetRef opts),
             EvPrompt (prompt_text env desc)], None)
         \<and> list_all (\<lambda>e. \<not> is_delete e) (fst (deleteManifest env ctx opts))"
  using assms by (simp add: deleteManifest_def Let_def)

theorem declined_confirmation_deletes_nothing_witness:
  "AskForConfirmation (sample_env sample_ref (Inr sample_desc) (Inr False))
       (prompt_text (sample_env sample_ref (Inr sample_desc) (Inr False)) sample_desc) = Inr False
   \<and> deleteManifest (sample_env sample_ref (Inr sample_desc) (Inr False)) []
       (sample_opts False False (Some True)) =
     ([EvResolve [(sample_ref, [ActionPull, ActionPush, ActionDelete])] ''localhost:5000/hello:v1'',
       EvPrompt (''Are you sure you want to delete the manifest sha256:99e4703fbf30916f'' @
                 '' and all tags associated with it?'')], None)"
  using declined_confirmation_deletes_nothing
          [of "sample_env sample_ref (Inr sample_desc) (Inr False)" "sample_opts False False (Some True)"
              sample_ref "[]" sample_desc]
  by (simp add: sample_env_def sample_opts_def sample_ref_def sample_desc_def named_def
      WithScopeHint_def hints_def prompt_text_def)

text \<open>
  Claim C7. When the parsed target has an empty reference (a bare repository), the
  workflow returns the invalid-reference error and has no event at all: no network call,
  the resolve call included, is made.
\<close>

theorem empty_reference_fails_before_network:
  assumes "NewRepository env (targetRef opts) = Inr repo"
    and "Reference repo = []"
  shows "deleteManifest env ctx opts = ([], Some (ErrInvalidReference repo))
         \<and> list_all (\<lambda>e. \<not> is_network e) (fst (deleteManifest env ctx opts))"
  using assms by (simp add: deleteManifest_def)

theorem empty_reference_fails_before_network_witness:
  "NewRepository (sample_env bare_ref (Inr sample_desc) (Inr True))
       (targetRef (sample_opts False False None)) = Inr bare_ref
   \<and> Reference bare_ref = []
   \<and> deleteManifest (sample_env bare_ref (Inr sample_desc) (Inr True)) []
       (sample_opts False False None)
       = ([], Some (ErrInvalidReference bare_ref))"
proof -
  have a: "NewRepository (sample_env bare_ref (Inr sample_desc) (Inr True))
             (targetRef (sample_opts False False None)) = Inr bare_ref"
    by (simp add: sample_env_def)
  have b: "Reference bare_ref = []"
    by (simp add: bare_ref_def)
  show ?thesis
    using a b empty_reference_fails_before_network [OF a b, of "[]"] by simp
qed

section \<open>Properties of the path validator\<close>

subsection \<open>The cleaning loop on segments\<close>









































section \<open>Properties of the push options\<close>

lemma mutator_returns_nil: "snd (mutator opt po) = None"
  by (cases opt)
     (simp_all add: WithConfig_def WithConfigMediaType_def WithConfigAnnotations_def
        WithManifest_def WithManifestAnnotations_def WithManifestWriter_def
        WithNameValidation_def WithPushBaseHandler_def WithPushStatusTrack_def AsArtifact_def)

lemma applyOpts_mutators: "\<exists>po'. applyOpts (map mutator opts) po = Inr po'"
proof (induction opts arbitrary: po)
  case Nil
  show ?case by simp
next
  case (Cons opt opts)
  obtain po1 where "mutator opt po = (po1, None)"
    using mutator_returns_nil [of opt po] by (cases "mutator opt po") auto
  then show ?case
    using Cons.IH [of po1] by simp
qed

text \<open>
  Claim C8. The mutator that appends base handlers puts the supplied handlers after the
  handlers already in the list, in order, so a later application keeps what an earlier
  one appended; every other field of the configuration is as before.
\<close>

theorem base_handlers_appended:
  "fst (WithPushBaseHandler handlers po) = po\<lparr>baseHandlers := baseHandlers po @ handlers\<rparr>
   \<and> baseHandlers (fst (WithPushBaseHandler handlers po)) = baseHandlers po @ handlers
   \<and> baseHandlers (fst (WithPushBaseHandler later (fst (WithPushBaseHandler handlers po)))) =
       baseHandlers po @ handlers @ later
   \<and> config (fst (WithPushBaseHandler handlers po)) = config po
   \<and> configMediaType (fst (WithPushBaseHandler handlers po)) = configMediaType po
   \<and> configAnnotations (fst (WithPushBaseHandler handlers po)) = configAnnotations po
   \<and> manifest (fst (WithPushBaseHandler handlers po)) = manifest po
   \<and> manifestAnnotations (fst (WithPushBaseHandler handlers po)) = manifestAnnotations po
   \<and> manifestWriter (fst (WithPushBaseHandler handlers po)) = manifestWriter po
   \<and> validateName (fst (WithPushBaseHandler handlers po)) = validateName po
   \<and> artifact (fst (WithPushBaseHandler handlers po)) = artifact po"
  by (simp add: WithPushBaseHandler_def)

theorem base_handlers_appended_witness:
  "baseHandlers (fst (WithPushBaseHandler [pushStatusTrack (Writer 2)]
       (fst (WithPushBaseHandler [pushStatusTrack (Writer 1)] pushOptsDefaults)))) =
     [pushStatusTrack (Writer 1), pushStatusTrack (Writer 2)]
   \<and> validateName (fst (WithPushBaseHandler [pushStatusTrack (Writer 1)] pushOptsDefaults)) =
       Some ValidateNameAsPath"
proof -
  have d: "baseHandlers pushOptsDefaults = []"
    "validateName pushOptsDefaults = Some ValidateNameAsPath"
    by (simp_all add: pushOptsDefaults_def)
  from base_handlers_appended
         [of "[pushStatusTrack (Writer 1)]" pushOptsDefaults "[pushStatusTrack (Writer 2)]"]
  have "baseHandlers (fst (WithPushBaseHandler [pushStatusTrack (Writer 2)]
          (fst (WithPushBaseHandler [pushStatusTrack (Writer 1)] pushOptsDefaults)))) =
        baseHandlers pushOptsDefaults @ [pushStatusTrack (Writer 1)] @ [pushStatusTrack (Writer 2)]"
    and "validateName (fst (WithPushBaseHandler [pushStatusTrack (Writer 1)] pushOptsDefaults)) =
         validateName pushOptsDefaults"
    by blast+
  then show ?thesis
    by (simp add: d)
qed

text \<open>
  Claim C9. For a descriptor with a name whose digest has an encoded part: when the
  encoded part has at least 12 characters the status tracker writes one line with its
  first 12 characters and the name, and returns no dependents and no error; when it has
  fewer than 12 characters the slice is out of range and the call panics. The call
  returns exactly when the descriptor has no name or its encoded digest has at least 12
  characters.
\<close>

theorem status_track_partial_below_twelve:
  "(ResolveName desc = Some name \<and> Encoded (Digest desc) = Return enc \<longrightarrow>
      (12 \<le> length enc \<longrightarrow>
         pushStatusTrack writer desc =
           Return ([(writer, ''Uploading '' @ take 12 enc @ '' '' @ name @ [CHR 0x0A])], [], None))
      \<and> (length enc < 12 \<longrightarrow>
         pushStatusTrack writer desc = Panic (SliceBoundsOutOfRange 12 (length enc))))
   \<and> ((\<exists>r. pushStatusTrack writer desc = Return r) \<longleftrightarrow>
        (ResolveName desc = None \<or> (\<exists>enc. Encoded (Digest desc) = Return enc \<and> 12 \<le> length enc)))"
  by (auto simp: pushStatusTrack_def slice_to_def Println3_def split: option.splits outcome.splits)

theorem status_track_partial_below_twelve_witness:
  "ResolveName (named ''sha256:99e4703fbf30916f549c'' ''hello.txt'') = Some ''hello.txt''
   \<and> Encoded (Digest (named ''sha256:99e4703fbf30916f549c'' ''hello.txt'')) = Return ''99e4703fbf30916f549c''
   \<and> pushStatusTrack (Writer 1) (named ''sha256:99e4703fbf30916f549c'' ''hello.txt'') =
       Return ([(Writer 1, ''Uploading 99e4703fbf30 hello.txt'' @ [CHR 0x0A])], [], None)
   \<and> Encoded (Digest (named ''sha256:99e4703'' ''hello.txt'')) = Return ''99e4703''
   \<and> pushStatusTrack (Writer 1) (named ''sha256:99e4703'' ''hello.txt'') =
       Panic (SliceBoundsOutOfRange 12 7)"
  using status_track_partial_below_twelve
          [of "named ''sha256:99e4703fbf30916f549c'' ''hello.txt''" "''hello.txt''"
              "''99e4703fbf30916f549c''" "Writer 1"]
        status_track_partial_below_twelve
          [of "named ''sha256:99e4703'' ''hello.txt''" "''hello.txt''" "''99e4703''" "Writer 1"]
  by (simp add: named_def ResolveName_def Encoded_def)

text \<open>
  Claim C10. Each of the ten mutators of the module returns the nil error on every
  configuration and for every argument. Hence a builder that applies mutators in order
  and stops at the first error never stops on a list of these mutators.
\<close>

theorem mutators_return_nil:
  "snd (WithConfig cfg po) = None
   \<and> snd (WithConfigMediaType mediaType po) = None
   \<and> snd (WithConfigAnnotations annotations po) = None
   \<and> snd (WithManifest mf po) = None
   \<and> snd (WithManifestAnnotations annotations po) = None
   \<and> snd (WithManifestWriter writer po) = None
   \<and> snd (WithNameValidation validate po) = None
   \<and> snd (WithPushBaseHandler handlers po) = None
   \<and> snd (WithPushStatusTrack w po) = None
   \<and> snd (AsArtifact artifactType mf po) = None
   \<and> snd (mutator opt po) = None
   \<and> (\<exists>po'. applyOpts (map mutator opts) po = Inr po')"
  using mutator_returns_nil [of opt po] applyOpts_mutators [of opts po]
  by (simp add: WithConfig_def WithConfigMediaType_def WithConfigAnnotations_def
        WithManifest_def WithManifestAnnotations_def WithManifestWriter_def
        WithNameValidation_def WithPushBaseHandler_def WithPushStatusTrack_def AsArtifact_def)

theorem mutators_return_nil_witness:
  "snd (WithNameValidation None pushOptsDefaults) = None
   \<and> snd (AsArtifact ''sbom/example'' sample_desc pushOptsDefaults) = None
   \<and> snd (WithPushStatusTrack (Writer 1) pushOptsDefaults) = None"
  using mutators_return_nil [of sample_desc pushOptsDefaults "''''" Map.empty sample_desc None None "[]"
     "Writer 1" "''sbom/example''" "OptConfig sample_desc" "[]"]
  by simp

end
